theory Spec2Isabelle
  imports Main
begin

section \<open>JavaScript strings\<close>

text \<open>
  A JavaScript string is a sequence of code units. The embedding takes the code units
  below 256 (the type \<^typ>\<open>char\<close>, read as U+0000 .. U+00FF); on these,
  \<open>String.prototype.trim\<close> and \<open>String.prototype.toLowerCase\<close> are written out in full
  from ECMAScript: the white space and line terminator code points of that range are
  TAB, LF, VT, FF, CR, SPACE and NO-BREAK SPACE (9 .. 13, 32 and 160), and the letters
  with a lower-case mapping are A..Z and U+00C0..U+00DE without the multiplication sign
  U+00D7; the mapping adds 32.
\<close>

definition isWhiteSpace :: "char \<Rightarrow> bool" where
  "isWhiteSpace c = ((of_char c :: nat) \<in> set [9, 10, 11, 12, 13, 32, 160])"

definition trim :: "string \<Rightarrow> string" where
  "trim s = rev (dropWhile isWhiteSpace (rev (dropWhile isWhiteSpace s)))"

definition isUpper :: "char \<Rightarrow> bool" where
  "isUpper c =
     ((65 \<le> (of_char c :: nat) \<and> (of_char c :: nat) \<le> 90)
      \<or> (192 \<le> (of_char c :: nat) \<and> (of_char c :: nat) \<le> 214)
      \<or> (216 \<le> (of_char c :: nat) \<and> (of_char c :: nat) \<le> 222))"

definition lowerChar :: "char \<Rightarrow> char" where
  "lowerChar c = (if isUpper c then char_of ((of_char c :: nat) + 32) else c)"

definition toLowerCase :: "string \<Rightarrow> string" where
  "toLowerCase s = map lowerChar s"

section \<open>Session key resolver\<close>

text \<open>
  \<open>SessionDefaultsSnapshot\<close>: four optional string fields. An absent field
  (\<open>undefined\<close>) is \<open>None\<close>.
\<close>

record SessionDefaultsSnapshot =
  defaultAgentId :: "string option"
  mainKey :: "string option"
  mainSessionKey :: "string option"
  scope :: "string option"

text \<open>\<open>scope ?? ""\<close>, \<open>value ?? ""\<close>: the nullish default of an optional string.\<close>

definition orEmpty :: "string option \<Rightarrow> string" where
  "orEmpty v = (case v of None \<Rightarrow> [] | Some s \<Rightarrow> s)"

definition normalizeScope :: "string option \<Rightarrow> string" where
  "normalizeScope sc = toLowerCase (trim (orEmpty sc))"

text \<open>
  \<open>normalizeAgentId\<close> and \<open>normalizeMainKey\<close> are imported from
  \<open>src/routing/session-key.js\<close>, which is not among the sources: the two functions
  of the resolver take them as the parameters \<open>nai\<close> and \<open>nmk\<close>.
  \<open>defaults\<close> is \<open>SessionDefaultsSnapshot | null | undefined\<close>; the code
  tests it with \<open>!defaults\<close> only, so both absent values are \<open>None\<close>. The result
  \<open>string | null\<close> is an option.
\<close>

definition resolveSnapshotMainSessionKey ::
  "(string option \<Rightarrow> string) \<Rightarrow> (string option \<Rightarrow> string) \<Rightarrow>
   SessionDefaultsSnapshot option \<Rightarrow> string option" where
  "resolveSnapshotMainSessionKey nai nmk defaults =
     (case defaults of
        None \<Rightarrow> None
      | Some d \<Rightarrow>
          (let explicitMainSessionKey = map_option trim (mainSessionKey d) in
           if explicitMainSessionKey \<noteq> None \<and> explicitMainSessionKey \<noteq> Some []
           then explicitMainSessionKey
           else if normalizeScope (scope d) = ''global'' then Some ''global''
           else Some (''agent:'' @ nai (defaultAgentId d) @ '':'' @ nmk (mainKey d))))"

text \<open>\<open>defaults?.defaultAgentId\<close>, \<open>defaults?.mainKey\<close>: optional chaining on the snapshot.\<close>

definition optField ::
  "(SessionDefaultsSnapshot \<Rightarrow> string option) \<Rightarrow> SessionDefaultsSnapshot option \<Rightarrow> string option" where
  "optField f defaults = (case defaults of None \<Rightarrow> None | Some d \<Rightarrow> f d)"

text \<open>
  \<open>!raw\<close> and \<open>!resolvedMainSessionKey\<close> hold for the empty string too, and the
  second also for \<open>null\<close>.
\<close>

definition isMainSessionAlias ::
  "(string option \<Rightarrow> string) \<Rightarrow> (string option \<Rightarrow> string) \<Rightarrow>
   string option \<Rightarrow> SessionDefaultsSnapshot option \<Rightarrow> bool" where
  "isMainSessionAlias nai nmk val defaults =
     (let raw = trim (orEmpty val) in
      if raw = [] then False
      else
        (case resolveSnapshotMainSessionKey nai nmk defaults of
           None \<Rightarrow> False
         | Some resolvedMainSessionKey \<Rightarrow>
             if resolvedMainSessionKey = [] then False
             else
               (let normalizedRaw = toLowerCase raw;
                    normalizedResolved = toLowerCase resolvedMainSessionKey in
                if normalizedRaw = normalizedResolved then True
                else if normalizedResolved = ''global'' then normalizedRaw = ''global''
                else
                  (let agentId = nai (optField defaultAgentId defaults);
                       mainKey' = nmk (optField mainKey defaults) in
                   normalizedRaw = ''main''
                   \<or> normalizedRaw = mainKey'
                   \<or> normalizedRaw = ''agent:'' @ agentId @ '':main''
                   \<or> normalizedRaw = ''agent:'' @ agentId @ '':'' @ mainKey'))))"

text \<open>
  Modelled from the spec: \<open>normalizeAgentId\<close> and \<open>normalizeMainKey\<close> themselves
  (\<open>src/routing/session-key.js\<close>) are missing. The spec gives their contract only:
  they canonicalize an identifier and apply a default when the raw value is absent or
  blank (\<open>"main"\<close> for the main key); the result is a non-empty canonical identifier.
  \<open>canonicalOrDefault dflt\<close> is a collaborator with that contract: the default for an
  absent or blank raw value, the raw value trimmed and lower-cased otherwise. It is used
  where a concrete collaborator is needed to evaluate the resolver.
\<close>

definition canonicalOrDefault :: "string \<Rightarrow> string option \<Rightarrow> string" where
  "canonicalOrDefault dflt raw =
     (if trim (orEmpty raw) = [] then dflt else toLowerCase (trim (orEmpty raw)))"

text \<open>
  \<open>keepOrDefault dflt\<close> applies the default in the same way but returns any other raw
  value as it is, neither trimmed nor lower-cased. It serves to show which properties
  of the collaborators the resolver depends on.
\<close>

definition keepOrDefault :: "string \<Rightarrow> string option \<Rightarrow> string" where
  "keepOrDefault dflt raw =
     (case raw of
        None \<Rightarrow> dflt
      | Some s \<Rightarrow> if trim s = [] then dflt else s)"

text \<open>The snapshot of the resolver's tests: \<open>{ defaultAgentId: "denver-move", mainKey: "heartbeat" }\<close>.\<close>

definition denverDefaults :: SessionDefaultsSnapshot where
  "denverDefaults =
     \<lparr> defaultAgentId = Some ''denver-move'', mainKey = Some ''heartbeat'',
       mainSessionKey = None, scope = None \<rparr>"

section \<open>The resolver on run-time values\<close>

text \<open>
  The type \<open>SessionDefaultsSnapshot\<close> is erased at run time, and the snapshot is parsed
  from a message of the gateway. This second embedding of the two functions of the
  resolver takes fields and the value argument as run-time values and returns an error
  result where the code raises.
\<close>

text \<open>
  The values a field or an argument can hold at run time, where the declared types are
  not enforced: \<open>undefined\<close>, \<open>null\<close>, a string, or a non-string primitive (a number or a
  boolean). A raise is the error result \<open>Inl TypeError\<close>.
\<close>

datatype jsValue = JUndefined | JNull | JString string | JNumber int | JBoolean bool

datatype jsError = TypeError

record RawSnapshot =
  raw_defaultAgentId :: jsValue
  raw_mainKey :: jsValue
  raw_mainSessionKey :: jsValue
  raw_scope :: jsValue

text \<open>
  \<open>x?.trim()\<close>: \<open>undefined\<close> for a nullish \<open>x\<close>, the trimmed string for a string, and a
  \<open>TypeError\<close> for a number or a boolean, which have no \<open>trim\<close> method to call.
\<close>

definition optionalTrim :: "jsValue \<Rightarrow> jsError + jsValue" where
  "optionalTrim x =
     (case x of
        JUndefined \<Rightarrow> Inr JUndefined
      | JNull \<Rightarrow> Inr JUndefined
      | JString s \<Rightarrow> Inr (JString (trim s))
      | JNumber n \<Rightarrow> Inl TypeError
      | JBoolean b \<Rightarrow> Inl TypeError)"

text \<open>\<open>(x ?? "").trim()\<close>, with the same \<open>TypeError\<close> on a number or a boolean.\<close>

definition nullishTrim :: "jsValue \<Rightarrow> jsError + string" where
  "nullishTrim x =
     (case x of
        JUndefined \<Rightarrow> Inr (trim [])
      | JNull \<Rightarrow> Inr (trim [])
      | JString s \<Rightarrow> Inr (trim s)
      | JNumber n \<Rightarrow> Inl TypeError
      | JBoolean b \<Rightarrow> Inl TypeError)"

definition normalizeScope_untyped :: "jsValue \<Rightarrow> jsError + string" where
  "normalizeScope_untyped sc =
     (case nullishTrim sc of Inl e \<Rightarrow> Inl e | Inr t \<Rightarrow> Inr (toLowerCase t))"

text \<open>
  Lines 26 to 32 of the resolver: the scope test and the derived key. The collaborators
  receive the raw field and may raise.
\<close>

definition resolveDerived_untyped ::
  "(jsValue \<Rightarrow> jsError + string) \<Rightarrow> (jsValue \<Rightarrow> jsError + string) \<Rightarrow>
   RawSnapshot \<Rightarrow> jsError + string option" where
  "resolveDerived_untyped nai nmk d =
     (case normalizeScope_untyped (raw_scope d) of
        Inl e \<Rightarrow> Inl e
      | Inr sc \<Rightarrow>
          if sc = ''global'' then Inr (Some ''global'')
          else
            (case nai (raw_defaultAgentId d) of
               Inl e \<Rightarrow> Inl e
             | Inr agentId \<Rightarrow>
                 (case nmk (raw_mainKey d) of
                    Inl e \<Rightarrow> Inl e
                  | Inr mainKey' \<Rightarrow> Inr (Some (''agent:'' @ agentId @ '':'' @ mainKey')))))"

text \<open>
  The resolver on a run-time snapshot. \<open>if (explicitMainSessionKey)\<close> holds for a
  non-empty string only; \<open>optionalTrim\<close> returns \<open>undefined\<close> or a string.
\<close>

definition resolveSnapshotMainSessionKey_untyped ::
  "(jsValue \<Rightarrow> jsError + string) \<Rightarrow> (jsValue \<Rightarrow> jsError + string) \<Rightarrow>
   RawSnapshot option \<Rightarrow> jsError + string option" where
  "resolveSnapshotMainSessionKey_untyped nai nmk defaults =
     (case defaults of
        None \<Rightarrow> Inr None
      | Some d \<Rightarrow>
          (case optionalTrim (raw_mainSessionKey d) of
             Inl e \<Rightarrow> Inl e
           | Inr explicitMainSessionKey \<Rightarrow>
               (case explicitMainSessionKey of
                  JString t \<Rightarrow> if t = [] then resolveDerived_untyped nai nmk d else Inr (Some t)
                | JUndefined \<Rightarrow> resolveDerived_untyped nai nmk d
                | JNull \<Rightarrow> resolveDerived_untyped nai nmk d
                | JNumber n \<Rightarrow> resolveDerived_untyped nai nmk d
                | JBoolean b \<Rightarrow> resolveDerived_untyped nai nmk d)))"

definition optField_untyped :: "(RawSnapshot \<Rightarrow> jsValue) \<Rightarrow> RawSnapshot option \<Rightarrow> jsValue" where
  "optField_untyped f defaults = (case defaults of None \<Rightarrow> JUndefined | Some d \<Rightarrow> f d)"

text \<open>Lines 59 to 66 of the alias test: the four fallback aliases.\<close>

definition aliasFallback_untyped ::
  "(jsValue \<Rightarrow> jsError + string) \<Rightarrow> (jsValue \<Rightarrow> jsError + string) \<Rightarrow>
   string \<Rightarrow> RawSnapshot option \<Rightarrow> jsError + bool" where
  "aliasFallback_untyped nai nmk normalizedRaw defaults =
     (case nai (optField_untyped raw_defaultAgentId defaults) of
        Inl e \<Rightarrow> Inl e
      | Inr agentId \<Rightarrow>
          (case nmk (optField_untyped raw_mainKey defaults) of
             Inl e \<Rightarrow> Inl e
           | Inr mainKey' \<Rightarrow>
               Inr (normalizedRaw = ''main''
                    \<or> normalizedRaw = mainKey'
                    \<or> normalizedRaw = ''agent:'' @ agentId @ '':main''
                    \<or> normalizedRaw = ''agent:'' @ agentId @ '':'' @ mainKey')))"

definition isMainSessionAlias_untyped ::
  "(jsValue \<Rightarrow> jsError + string) \<Rightarrow> (jsValue \<Rightarrow> jsError + string) \<Rightarrow>
   jsValue \<Rightarrow> RawSnapshot option \<Rightarrow> jsError + bool" where
  "isMainSessionAlias_untyped nai nmk val defaults =
     (case nullishTrim val of
        Inl e \<Rightarrow> Inl e
      | Inr raw \<Rightarrow>
          if raw = [] then Inr False
          else
            (case resolveSnapshotMainSessionKey_untyped nai nmk defaults of
               Inl e \<Rightarrow> Inl e
             | Inr None \<Rightarrow> Inr False
             | Inr (Some resolvedMainSessionKey) \<Rightarrow>
                 if resolvedMainSessionKey = [] then Inr False
                 else if toLowerCase raw = toLowerCase resolvedMainSessionKey then Inr True
                 else if toLowerCase resolvedMainSessionKey = ''global''
                   then Inr (toLowerCase raw = ''global'')
                 else aliasFallback_untyped nai nmk (toLowerCase raw) defaults))"

text \<open>
  The inputs of the declared types, as run-time values: an optional string is
  \<open>undefined\<close> or a string, and a snapshot has four such fields.
\<close>

definition ofOptional :: "string option \<Rightarrow> jsValue" where
  "ofOptional v = (case v of None \<Rightarrow> JUndefined | Some s \<Rightarrow> JString s)"

definition ofSnapshot :: "SessionDefaultsSnapshot \<Rightarrow> RawSnapshot" where
  "ofSnapshot d =
     \<lparr> raw_defaultAgentId = ofOptional (defaultAgentId d), raw_mainKey = ofOptional (mainKey d),
       raw_mainSessionKey = ofOptional (mainSessionKey d), raw_scope = ofOptional (scope d) \<rparr>"

text \<open>
  Modelled from the spec: the collaborators at run time are missing like their typed
  form. \<open>stringsOnly f\<close> is the typed collaborator \<open>f\<close> on the values of its declared
  type, and raises on a number or a boolean.
\<close>

definition stringsOnly :: "(string option \<Rightarrow> string) \<Rightarrow> jsValue \<Rightarrow> jsError + string" where
  "stringsOnly f x =
     (case x of
        JUndefined \<Rightarrow> Inr (f None)
      | JNull \<Rightarrow> Inr (f None)
      | JString s \<Rightarrow> Inr (f (Some s))
      | JNumber n \<Rightarrow> Inl TypeError
      | JBoolean b \<Rightarrow> Inl TypeError)"

text \<open>A snapshot whose \<open>mainSessionKey\<close> is the number 42.\<close>

definition numericKeySnapshot :: RawSnapshot where
  "numericKeySnapshot =
     \<lparr> raw_defaultAgentId = JString ''denver-move'', raw_mainKey = JString ''heartbeat'',
       raw_mainSessionKey = JNumber 42, raw_scope = JUndefined \<rparr>"

section \<open>Number to string\<close>

text \<open>
  The string concatenation \<open>"..." + n\<close> of a number: sequence numbers and close codes
  are integers, printed in decimal with a leading minus sign when negative.
\<close>

definition digitChar :: "nat \<Rightarrow> char" where
  "digitChar d = char_of (48 + d)"

fun digitsOf :: "nat \<Rightarrow> string" where
  "digitsOf n = (if n < 10 then [digitChar n] else digitsOf (n div 10) @ [digitChar (n mod 10)])"

declare digitsOf.simps [simp del]

definition numberToString :: "int \<Rightarrow> string" where
  "numberToString i = (if i < 0 then CHR ''-'' # digitsOf (nat (- i)) else digitsOf (nat i))"

section \<open>Gateway connection: generation guard, host state, callbacks\<close>

text \<open>
  Modelled from the spec: \<open>connectGateway\<close> (\<open>ui/src/ui/app-gateway.ts\<close>) is missing
  from the sources; only its test \<open>app-gateway.node.test.ts\<close> is present. The
  definitions of this section follow sections 3, 4.2 and 6 of the spec: the host state,
  the transport callbacks and \<open>connect\<close>. The downstream loaders triggered by a hello
  are external collaborators and are left out.
\<close>

record 'p EventEnvelope =
  event :: string
  payload :: "'p option"
  seq :: "int option"

record Settings =
  settings_sessionKey :: string
  settings_lastActiveSessionKey :: string

record 'p HostState =
  connected :: bool
  lastError :: "string option"
  sessionKey :: string
  eventLogBuffer :: "'p EventEnvelope list"
  settings :: Settings

record Snapshot =
  sessionDefaults :: "SessionDefaultsSnapshot option"

record Hello =
  snapshot :: "Snapshot option"

text \<open>The four notifications of the transport client, with their arguments.\<close>

datatype 'p Callback =
    OnHello Hello
  | OnClose int "string option"
  | OnGap int int
  | OnEvent "'p EventEnvelope"

text \<open>
  The guard: the counter \<open>currentGeneration\<close> and the reference to the active transport
  client. A transport client is identified by the generation its callbacks captured
  (\<open>myGeneration\<close>); \<open>transportCalls\<close> records the \<open>stop()\<close> and \<open>start()\<close> calls made
  on clients.
\<close>

datatype TransportCall = Stop nat | Start nat

record 'p Gateway =
  currentGeneration :: nat
  activeClient :: "nat option"
  transportCalls :: "TransportCall list"
  host :: "'p HostState"

text \<open>\<open>hello.snapshot.sessionDefaults\<close>, absent when the snapshot is.\<close>

definition helloSessionDefaults :: "Hello \<Rightarrow> SessionDefaultsSnapshot option" where
  "helloSessionDefaults hello =
     (case snapshot hello of None \<Rightarrow> None | Some sn \<Rightarrow> sessionDefaults sn)"

definition onHello ::
  "(string option \<Rightarrow> string) \<Rightarrow> (string option \<Rightarrow> string) \<Rightarrow>
   Hello \<Rightarrow> 'p HostState \<Rightarrow> 'p HostState" where
  "onHello nai nmk hello h =
     (let h1 = h\<lparr> connected := True \<rparr> in
      case helloSessionDefaults hello of
        None \<Rightarrow> h1
      | Some defaults \<Rightarrow>
          (case resolveSnapshotMainSessionKey nai nmk (Some defaults) of
             None \<Rightarrow> h1
           | Some resolved \<Rightarrow>
               if resolved = sessionKey h1 then h1
               else h1\<lparr> sessionKey := resolved,
                        settings := (settings h1)\<lparr> settings_sessionKey := resolved,
                                                   settings_lastActiveSessionKey := resolved \<rparr> \<rparr>))"

text \<open>\<open>info.reason || "no reason"\<close>: the default for an absent or empty reason.\<close>

definition reasonOrDefault :: "string option \<Rightarrow> string" where
  "reasonOrDefault reason =
     (case reason of
        None \<Rightarrow> ''no reason''
      | Some r \<Rightarrow> if r = [] then ''no reason'' else r)"

definition onClose :: "int \<Rightarrow> string option \<Rightarrow> 'p HostState \<Rightarrow> 'p HostState" where
  "onClose code reason h =
     h\<lparr> lastError :=
          Some (''disconnected ('' @ numberToString code @ ''): '' @ reasonOrDefault reason) \<rparr>"

definition onGap :: "int \<Rightarrow> int \<Rightarrow> 'p HostState \<Rightarrow> 'p HostState" where
  "onGap expected received h =
     h\<lparr> lastError :=
          Some (''event gap detected (expected seq '' @ numberToString expected @ '', got ''
                @ numberToString received @ ''); refresh recommended'') \<rparr>"

definition onEvent :: "'p EventEnvelope \<Rightarrow> 'p HostState \<Rightarrow> 'p HostState" where
  "onEvent evt h = h\<lparr> eventLogBuffer := eventLogBuffer h @ [evt] \<rparr>"

text \<open>What a callback does to the host once its generation check has passed.\<close>

fun handle ::
  "(string option \<Rightarrow> string) \<Rightarrow> (string option \<Rightarrow> string) \<Rightarrow>
   'p Callback \<Rightarrow> 'p HostState \<Rightarrow> 'p HostState" where
  "handle nai nmk (OnHello hello) h = onHello nai nmk hello h"
| "handle nai nmk (OnClose code reason) h = onClose code reason h"
| "handle nai nmk (OnGap expected received) h = onGap expected received h"
| "handle nai nmk (OnEvent evt) h = onEvent evt h"

text \<open>
  \<open>connect\<close>: bump the generation, stop and discard the previous client, construct the
  new client bound to the new generation, store it and start it. The result is the new
  client (its captured generation) and the updated guard.
\<close>

definition connect :: "'p Gateway \<Rightarrow> nat \<times> 'p Gateway" where
  "connect g =
     (let myGeneration = currentGeneration g + 1;
          stops = (case activeClient g of None \<Rightarrow> [] | Some prev \<Rightarrow> [Stop prev])
      in (myGeneration,
          g\<lparr> currentGeneration := myGeneration,
             activeClient := Some myGeneration,
             transportCalls := transportCalls g @ stops @ [Start myGeneration] \<rparr>))"

text \<open>
  The transport invoking a callback of the client whose callbacks captured
  \<open>myGeneration\<close>: the callback first checks \<open>myGeneration === currentGeneration\<close> and
  returns without touching the host when the check fails.
\<close>

definition fire ::
  "(string option \<Rightarrow> string) \<Rightarrow> (string option \<Rightarrow> string) \<Rightarrow>
   nat \<Rightarrow> 'p Callback \<Rightarrow> 'p Gateway \<Rightarrow> 'p Gateway" where
  "fire nai nmk myGeneration cb g =
     (if myGeneration = currentGeneration g
      then g\<lparr> host := handle nai nmk cb (host g) \<rparr>
      else g)"

text \<open>
  The host of \<open>createHost()\<close> in \<open>app-gateway.node.test.ts\<close>, on the fields of the
  model, and a guard that has never connected.
\<close>

definition createHost :: "string HostState" where
  "createHost =
     \<lparr> connected = False, lastError = None, sessionKey = ''main'', eventLogBuffer = [],
       settings = \<lparr> settings_sessionKey = ''main'', settings_lastActiveSessionKey = ''main'' \<rparr> \<rparr>"

definition initialGateway :: "string HostState \<Rightarrow> string Gateway" where
  "initialGateway h =
     \<lparr> currentGeneration = 0, activeClient = None, transportCalls = [], host = h \<rparr>"

text \<open>
  A host with an event already in its buffer and the session key of the hello test.
\<close>

definition busyHost :: "string HostState" where
  "busyHost =
     createHost\<lparr> sessionKey := ''agent:denver-move:main'',
       eventLogBuffer := [\<lparr> event = ''presence'', payload = Some ''earlier'', seq = Some 7 \<rparr>] \<rparr>"

section \<open>Facts about trimming and lower-casing\<close>

lemma isUpper_not_ws: "isUpper c \<Longrightarrow> \<not> isWhiteSpace c"
  by (auto simp add: isUpper_def isWhiteSpace_def)

lemma of_char_lower: "isUpper c \<Longrightarrow> (of_char (lowerChar c) :: nat) = of_char c + 32"
  by (auto simp add: isUpper_def lowerChar_def)

lemma lowerChar_not_upper: "\<not> isUpper (lowerChar c)"
proof (cases "isUpper c")
  case True
  then show ?thesis
    unfolding isUpper_def[of "lowerChar c"] of_char_lower[OF True]
    by (auto simp add: isUpper_def)
next
  case False
  then show ?thesis by (simp add: lowerChar_def)
qed

lemma lowerChar_idem: "lowerChar (lowerChar c) = lowerChar c"
  using lowerChar_not_upper[of c] by (simp add: lowerChar_def[of "lowerChar c"])

lemma isWhiteSpace_lowerChar: "isWhiteSpace (lowerChar c) = isWhiteSpace c"
proof (cases "isUpper c")
  case True
  have "\<not> isWhiteSpace (lowerChar c)"
    unfolding isWhiteSpace_def of_char_lower[OF True] using True
    by (auto simp add: isUpper_def)
  then show ?thesis using isUpper_not_ws[OF True] by simp
next
  case False
  then show ?thesis by (simp add: lowerChar_def)
qed

lemma toLowerCase_idem: "toLowerCase (toLowerCase s) = toLowerCase s"
  by (simp add: toLowerCase_def lowerChar_idem)


lemma toLowerCase_Nil_iff: "toLowerCase s = [] \<longleftrightarrow> s = []"
  by (simp add: toLowerCase_def)

lemma dropWhile_ws_lower:
  "dropWhile isWhiteSpace (toLowerCase s) = toLowerCase (dropWhile isWhiteSpace s)"
  by (induction s) (simp_all add: toLowerCase_def isWhiteSpace_lowerChar)

lemma trim_toLowerCase: "trim (toLowerCase s) = toLowerCase (trim s)"
proof -
  have r: "rev (toLowerCase t) = toLowerCase (rev t)" for t
    by (simp add: toLowerCase_def rev_map)
  show ?thesis
    unfolding trim_def by (simp add: dropWhile_ws_lower r)
qed

lemma dropWhile_rev_dropWhile:
  "dropWhile P (rev (dropWhile P (rev (dropWhile P s)))) = rev (dropWhile P (rev (dropWhile P s)))"
proof (cases "dropWhile P s")
  case Nil
  show ?thesis unfolding Nil by simp
next
  case (Cons x xs)
  then have nx: "\<not> P x" by (metis dropWhile_eq_Cons_conv)
  have "\<exists>zs. dropWhile P (rev xs @ [x]) = zs @ [x]"
    using nx by (cases "\<forall>y\<in>set (rev xs). P y") (simp_all add: dropWhile_append)
  then obtain zs where "dropWhile P (rev (x # xs)) = zs @ [x]" by auto
  then have ys: "rev (dropWhile P (rev (x # xs))) = x # rev zs" by simp
  show ?thesis unfolding Cons ys using nx by simp
qed

lemma trim_idem: "trim (trim s) = trim s"
proof -
  let ?t = "rev (dropWhile isWhiteSpace (rev (dropWhile isWhiteSpace s)))"
  have a: "dropWhile isWhiteSpace ?t = ?t" by (rule dropWhile_rev_dropWhile)
  show ?thesis unfolding trim_def a by simp
qed

section \<open>Evaluation rules\<close>

lemmas string_eval =
  trim_def isWhiteSpace_def toLowerCase_def lowerChar_def isUpper_def char_of_def bit_0

lemma keepOrDefault_None: "keepOrDefault dflt None = dflt"
  by (simp add: keepOrDefault_def)

lemma keepOrDefault_Some: "keepOrDefault dflt (Some s) = (if trim s = [] then dflt else s)"
  by (simp add: keepOrDefault_def)


lemma trim_Nil: "trim [] = []" by (simp add: trim_def)

lemma canonicalOrDefault_None: "canonicalOrDefault dflt None = dflt"
  by (simp add: canonicalOrDefault_def orEmpty_def trim_Nil)

lemma canonicalOrDefault_Some:
  "canonicalOrDefault dflt (Some s) = (if trim s = [] then dflt else toLowerCase (trim s))"
  by (simp add: canonicalOrDefault_def orEmpty_def)

lemma canonicalOrDefault_not_empty: "dflt \<noteq> [] \<Longrightarrow> canonicalOrDefault dflt raw \<noteq> []"
  by (simp add: canonicalOrDefault_def toLowerCase_Nil_iff)




lemmas resolver_eval =
  denverDefaults_def canonicalOrDefault_None canonicalOrDefault_Some keepOrDefault_None
  keepOrDefault_Some orEmpty_def normalizeScope_def optField_def

section \<open>The resolver, case by case\<close>

lemma resolve_None: "resolveSnapshotMainSessionKey nai nmk None = None"
  by (simp add: resolveSnapshotMainSessionKey_def)

lemma resolve_cases:
  "resolveSnapshotMainSessionKey nai nmk (Some d) =
     (case mainSessionKey d of
        None \<Rightarrow> (if normalizeScope (scope d) = ''global'' then Some ''global''
                 else Some (''agent:'' @ nai (defaultAgentId d) @ '':'' @ nmk (mainKey d)))
      | Some s \<Rightarrow> (if trim s \<noteq> [] then Some (trim s)
                   else if normalizeScope (scope d) = ''global'' then Some ''global''
                 else Some (''agent:'' @ nai (defaultAgentId d) @ '':'' @ nmk (mainKey d))))"
  by (simp add: resolveSnapshotMainSessionKey_def Let_def split: option.splits)

lemma resolve_not_empty:
  "resolveSnapshotMainSessionKey nai nmk defaults = Some K \<Longrightarrow> K \<noteq> []"
  by (cases defaults) (auto simp add: resolve_None resolve_cases split: option.splits if_splits)

lemma isMainSessionAlias_None:
  "resolveSnapshotMainSessionKey nai nmk defaults = None \<Longrightarrow>
   \<not> isMainSessionAlias nai nmk v defaults"
  by (simp add: isMainSessionAlias_def Let_def)

lemma isMainSessionAlias_Some:
  assumes "resolveSnapshotMainSessionKey nai nmk defaults = Some K"
  shows "isMainSessionAlias nai nmk v defaults =
     (trim (orEmpty v) \<noteq> []
      \<and> (toLowerCase (trim (orEmpty v)) = toLowerCase K
         \<or> (toLowerCase K \<noteq> ''global''
            \<and> (toLowerCase (trim (orEmpty v)) = ''main''
               \<or> toLowerCase (trim (orEmpty v)) = nmk (optField mainKey defaults)
               \<or> toLowerCase (trim (orEmpty v))
                    = ''agent:'' @ nai (optField defaultAgentId defaults) @ '':main''
               \<or> toLowerCase (trim (orEmpty v))
                    = ''agent:'' @ nai (optField defaultAgentId defaults) @ '':''
                      @ nmk (optField mainKey defaults)))))"
proof -
  have "K \<noteq> []" using assms by (rule resolve_not_empty)
  then show ?thesis
    unfolding isMainSessionAlias_def Let_def assms by auto
qed





lemma keepOrDefault_not_empty: "dflt \<noteq> [] \<Longrightarrow> keepOrDefault dflt raw \<noteq> []"
  by (auto simp add: keepOrDefault_def trim_Nil split: option.splits)

text \<open>
  On inputs of the declared types, with collaborators that return there, the run-time
  functions return what the typed functions give.
\<close>

lemma stringsOnly_ofOptional: "stringsOnly f (ofOptional raw) = Inr (f raw)"
  by (cases raw) (simp_all add: stringsOnly_def ofOptional_def)

lemma nullishTrim_ofOptional: "nullishTrim (ofOptional v) = Inr (trim (orEmpty v))"
  by (cases v) (simp_all add: nullishTrim_def ofOptional_def orEmpty_def)

lemma optionalTrim_ofOptional:
  "optionalTrim (ofOptional v) = Inr (case v of None \<Rightarrow> JUndefined | Some s \<Rightarrow> JString (trim s))"
  by (cases v) (simp_all add: optionalTrim_def ofOptional_def)

lemma resolve_untyped_typed:
  assumes nai: "\<And>raw. nai' (ofOptional raw) = Inr (nai raw)"
    and nmk: "\<And>raw. nmk' (ofOptional raw) = Inr (nmk raw)"
  shows "resolveSnapshotMainSessionKey_untyped nai' nmk' (map_option ofSnapshot defaults)
     = Inr (resolveSnapshotMainSessionKey nai nmk defaults)"
proof (cases defaults)
  case None
  then show ?thesis
    by (simp add: resolveSnapshotMainSessionKey_untyped_def resolve_None)
next
  case (Some d)
  have derived: "resolveDerived_untyped nai' nmk' (ofSnapshot d)
      = Inr (if normalizeScope (scope d) = ''global'' then Some ''global''
             else Some (''agent:'' @ nai (defaultAgentId d) @ '':'' @ nmk (mainKey d)))"
    by (simp add: resolveDerived_untyped_def normalizeScope_untyped_def ofSnapshot_def
          nullishTrim_ofOptional normalizeScope_def nai nmk)
  show ?thesis
    unfolding Some
    by (cases "mainSessionKey d")
      (simp_all add: resolveSnapshotMainSessionKey_untyped_def resolve_cases derived
        ofSnapshot_def [of d, THEN arg_cong [of _ _ raw_mainSessionKey]] optionalTrim_ofOptional)
qed

lemma alias_untyped_typed:
  assumes nai: "\<And>raw. nai' (ofOptional raw) = Inr (nai raw)"
    and nmk: "\<And>raw. nmk' (ofOptional raw) = Inr (nmk raw)"
  shows "isMainSessionAlias_untyped nai' nmk' (ofOptional v) (map_option ofSnapshot defaults)
     = Inr (isMainSessionAlias nai nmk v defaults)"
proof -
  have f1: "optField_untyped raw_defaultAgentId (map_option ofSnapshot defaults)
      = ofOptional (optField defaultAgentId defaults)"
    by (cases defaults) (simp_all add: optField_untyped_def optField_def ofSnapshot_def ofOptional_def)
  have f2: "optField_untyped raw_mainKey (map_option ofSnapshot defaults)
      = ofOptional (optField mainKey defaults)"
    by (cases defaults) (simp_all add: optField_untyped_def optField_def ofSnapshot_def ofOptional_def)
  show ?thesis
    by (cases "resolveSnapshotMainSessionKey nai nmk defaults")
      (simp_all add: isMainSessionAlias_untyped_def isMainSessionAlias_def Let_def
        nullishTrim_ofOptional resolve_untyped_typed [of nai' nai nmk' nmk, OF nai nmk]
        aliasFallback_untyped_def f1 f2 nai nmk)
qed

lemma alias_false_on_absent:
  "(trim (orEmpty v) = [] \<longrightarrow> \<not> isMainSessionAlias nai nmk v defaults)
   \<and> (resolveSnapshotMainSessionKey nai nmk defaults = None
        \<longrightarrow> \<not> isMainSessionAlias nai nmk v defaults)"
  by (simp add: isMainSessionAlias_def Let_def)

section \<open>Claims about the resolver\<close>

text \<open>
  C2 (corrected). The claim has the resolver return \<open>defaults.mainSessionKey\<close> verbatim
  whenever that field is non-empty after trimming. The code returns
  \<open>defaults.mainSessionKey?.trim()\<close>, the trimmed string: with the key \<open>" main-chat"\<close>
  the result is \<open>"main-chat"\<close>, not the original string.
\<close>

theorem resolve_explicit_verbatim_counterexample:
  "mainSessionKey (denverDefaults\<lparr> mainSessionKey := Some '' main-chat'' \<rparr>) = Some '' main-chat''
   \<and> trim '' main-chat'' \<noteq> []
   \<and> resolveSnapshotMainSessionKey (canonicalOrDefault ''main'') (canonicalOrDefault ''main'')
        (Some (denverDefaults\<lparr> mainSessionKey := Some '' main-chat'' \<rparr>)) = Some ''main-chat''
   \<and> resolveSnapshotMainSessionKey (canonicalOrDefault ''main'') (canonicalOrDefault ''main'')
        (Some (denverDefaults\<lparr> mainSessionKey := Some '' main-chat'' \<rparr>)) \<noteq> Some '' main-chat''"
  by (simp add: resolve_cases trim_def isWhiteSpace_def)

text \<open>
  C2 (amended). When \<open>mainSessionKey\<close> is a string that is non-empty after trimming,
  the resolver returns that string trimmed, whatever \<open>scope\<close>, \<open>defaultAgentId\<close> and
  \<open>mainKey\<close> are.
\<close>

theorem resolve_explicit_trimmed:
  "mainSessionKey d = Some s \<Longrightarrow> trim s \<noteq> [] \<Longrightarrow>
   resolveSnapshotMainSessionKey nai nmk (Some d) = Some (trim s)"
  by (simp add: resolve_cases)

theorem resolve_explicit_trimmed_witness:
  "mainSessionKey (denverDefaults\<lparr> mainSessionKey := Some '' agent:denver-move:main-chat '' \<rparr>)
     = Some '' agent:denver-move:main-chat ''
   \<and> trim '' agent:denver-move:main-chat '' \<noteq> []
   \<and> resolveSnapshotMainSessionKey (canonicalOrDefault ''main'') (canonicalOrDefault ''main'')
        (Some (denverDefaults\<lparr> mainSessionKey := Some '' agent:denver-move:main-chat '' \<rparr>))
      = Some ''agent:denver-move:main-chat''"
  using resolve_explicit_trimmed [of "denverDefaults\<lparr> mainSessionKey := Some '' agent:denver-move:main-chat '' \<rparr>"
      "'' agent:denver-move:main-chat ''" "canonicalOrDefault ''main''" "canonicalOrDefault ''main''"]
  by (simp add: trim_def isWhiteSpace_def)

text \<open>
  C4. For a present snapshot whose \<open>mainSessionKey\<close> is absent or blank after trimming:
  the result is \<open>"global"\<close> when \<open>scope\<close>, trimmed and lower-cased, equals \<open>"global"\<close>,
  and \<open>"agent:" + normalizeAgentId(defaultAgentId) + ":" + normalizeMainKey(mainKey)\<close>
  otherwise, for arbitrary collaborators \<open>nai\<close> and \<open>nmk\<close>.
\<close>

theorem resolve_without_explicit:
  "(case mainSessionKey d of None \<Rightarrow> True | Some s \<Rightarrow> trim s = []) \<Longrightarrow>
   resolveSnapshotMainSessionKey nai nmk (Some d) =
     (if toLowerCase (trim (orEmpty (scope d))) = ''global'' then Some ''global''
      else Some (''agent:'' @ nai (defaultAgentId d) @ '':'' @ nmk (mainKey d)))"
  by (simp add: resolve_cases normalizeScope_def split: option.splits)

theorem resolve_without_explicit_witness:
  "(case mainSessionKey denverDefaults of None \<Rightarrow> True | Some s \<Rightarrow> trim s = [])
   \<and> resolveSnapshotMainSessionKey (canonicalOrDefault ''main'') (canonicalOrDefault ''main'') (Some denverDefaults)
       = Some ''agent:denver-move:heartbeat''
   \<and> (case mainSessionKey (denverDefaults\<lparr> mainSessionKey := Some ''  '', scope := Some '' Global '' \<rparr>)
         of None \<Rightarrow> True | Some s \<Rightarrow> trim s = [])
   \<and> resolveSnapshotMainSessionKey (canonicalOrDefault ''main'') (canonicalOrDefault ''main'')
        (Some (denverDefaults\<lparr> mainSessionKey := Some ''  '', scope := Some '' Global '' \<rparr>))
       = Some ''global''"
  using resolve_without_explicit [of denverDefaults "canonicalOrDefault ''main''" "canonicalOrDefault ''main''"]
    resolve_without_explicit [of "denverDefaults\<lparr> mainSessionKey := Some ''  '', scope := Some '' Global '' \<rparr>"
       "canonicalOrDefault ''main''" "canonicalOrDefault ''main''"]
  by (simp add: resolver_eval string_eval)

text \<open>
  C8 (corrected). The claim has neither function throw on any input. The declared types
  are not enforced at run time: on a snapshot whose \<open>mainSessionKey\<close> is a number,
  \<open>defaults.mainSessionKey?.trim()\<close> raises a \<open>TypeError\<close> in the resolver, and so in the
  alias test; \<open>(value ?? "").trim()\<close> raises on a number passed as the value.
\<close>

theorem resolver_throws_counterexample:
  "resolveSnapshotMainSessionKey_untyped (stringsOnly (canonicalOrDefault ''main'')) (stringsOnly (canonicalOrDefault ''main'')) (Some numericKeySnapshot) = Inl TypeError
   \<and> isMainSessionAlias_untyped (stringsOnly (canonicalOrDefault ''main'')) (stringsOnly (canonicalOrDefault ''main'')) (JString ''main'') (Some numericKeySnapshot) = Inl TypeError
   \<and> isMainSessionAlias_untyped (stringsOnly (canonicalOrDefault ''main'')) (stringsOnly (canonicalOrDefault ''main'')) (JNumber 7) None = Inl TypeError"
  by (simp add: resolveSnapshotMainSessionKey_untyped_def isMainSessionAlias_untyped_def
        numericKeySnapshot_def optionalTrim_def nullishTrim_def trim_def isWhiteSpace_def)

text \<open>
  C8 (amended). On inputs of the declared types (the value and every field of the
  snapshot a string or absent), with collaborators that return on such inputs, neither
  function raises: each returns the value of its typed embedding. Absence is signalled
  through the result: the resolver returns \<open>null\<close> for an absent snapshot, and the
  alias test returns \<open>false\<close> whenever its value trims to the empty string (an absent
  value counts as the empty string) or the canonical key resolves to \<open>null\<close>.
\<close>

theorem resolver_total_on_declared_types:
  assumes nai: "\<And>raw. nai' (ofOptional raw) = Inr (nai raw)"
    and nmk: "\<And>raw. nmk' (ofOptional raw) = Inr (nmk raw)"
  shows "resolveSnapshotMainSessionKey_untyped nai' nmk' None = Inr None
     \<and> resolveSnapshotMainSessionKey_untyped nai' nmk' (map_option ofSnapshot defaults)
        = Inr (resolveSnapshotMainSessionKey nai nmk defaults)
     \<and> isMainSessionAlias_untyped nai' nmk' (ofOptional v) (map_option ofSnapshot defaults)
        = Inr (isMainSessionAlias nai nmk v defaults)
     \<and> (trim (orEmpty v) = []
        \<longrightarrow> isMainSessionAlias_untyped nai' nmk' (ofOptional v) (map_option ofSnapshot defaults)
            = Inr False)
     \<and> (resolveSnapshotMainSessionKey_untyped nai' nmk' (map_option ofSnapshot defaults) = Inr None
        \<longrightarrow> isMainSessionAlias_untyped nai' nmk' (ofOptional v) (map_option ofSnapshot defaults)
            = Inr False)"
proof -
  note r = resolve_untyped_typed [of nai' nai nmk' nmk, OF nai nmk]
  note a = alias_untyped_typed [of nai' nai nmk' nmk, OF nai nmk]
  have "resolveSnapshotMainSessionKey_untyped nai' nmk' None = Inr None"
    by (simp add: resolveSnapshotMainSessionKey_untyped_def)
  then show ?thesis
    unfolding r a using alias_false_on_absent [of v nai nmk defaults] by simp
qed

theorem resolver_total_on_declared_types_witness:
  "(\<forall>raw. stringsOnly (canonicalOrDefault ''main'') (ofOptional raw)
           = Inr (canonicalOrDefault ''main'' raw))
   \<and> resolveSnapshotMainSessionKey_untyped (stringsOnly (canonicalOrDefault ''main'')) (stringsOnly (canonicalOrDefault ''main'')) None = Inr None
   \<and> resolveSnapshotMainSessionKey_untyped (stringsOnly (canonicalOrDefault ''main'')) (stringsOnly (canonicalOrDefault ''main'')) (map_option ofSnapshot (Some denverDefaults))
     = Inr (Some ''agent:denver-move:heartbeat'')
   \<and> isMainSessionAlias_untyped (stringsOnly (canonicalOrDefault ''main'')) (stringsOnly (canonicalOrDefault ''main'')) (ofOptional (Some ''Heartbeat ''))
        (map_option ofSnapshot (Some denverDefaults)) = Inr True
   \<and> trim (orEmpty (Some ''  '')) = []
   \<and> isMainSessionAlias_untyped (stringsOnly (canonicalOrDefault ''main'')) (stringsOnly (canonicalOrDefault ''main'')) (ofOptional (Some ''  ''))
        (map_option ofSnapshot (Some denverDefaults)) = Inr False
   \<and> trim (orEmpty None) = []
   \<and> isMainSessionAlias_untyped (stringsOnly (canonicalOrDefault ''main'')) (stringsOnly (canonicalOrDefault ''main'')) (ofOptional None)
        (map_option ofSnapshot (Some denverDefaults)) = Inr False
   \<and> resolveSnapshotMainSessionKey_untyped (stringsOnly (canonicalOrDefault ''main'')) (stringsOnly (canonicalOrDefault ''main'')) (map_option ofSnapshot None) = Inr None
   \<and> isMainSessionAlias_untyped (stringsOnly (canonicalOrDefault ''main'')) (stringsOnly (canonicalOrDefault ''main'')) (ofOptional (Some ''main''))
        (map_option ofSnapshot None) = Inr False"
proof -
  let ?c = "canonicalOrDefault ''main''"
  note th = resolver_total_on_declared_types [of "stringsOnly ?c" ?c "stringsOnly ?c" ?c,
      OF stringsOnly_ofOptional stringsOnly_ofOptional]
  have K: "resolveSnapshotMainSessionKey ?c ?c (Some denverDefaults)
      = Some ''agent:denver-move:heartbeat''"
    by (simp add: resolve_cases resolver_eval string_eval)
  have A1: "isMainSessionAlias ?c ?c (Some ''Heartbeat '') (Some denverDefaults)"
    unfolding isMainSessionAlias_Some [OF K] by (simp add: resolver_eval string_eval)
  have e: "trim (orEmpty (Some ''  '')) = []" "trim (orEmpty None) = []"
    by (simp_all add: orEmpty_def string_eval)
  have c: "stringsOnly ?c (ofOptional raw) = Inr (?c raw)" for raw
    by (rule stringsOnly_ofOptional)
  have f0: "resolveSnapshotMainSessionKey_untyped (stringsOnly ?c) (stringsOnly ?c) None = Inr None"
    by (rule th [THEN conjunct1])
  have f1: "resolveSnapshotMainSessionKey_untyped (stringsOnly ?c) (stringsOnly ?c) (map_option ofSnapshot (Some denverDefaults))
      = Inr (Some ''agent:denver-move:heartbeat'')"
    unfolding th [THEN conjunct2, THEN conjunct1] K by simp
  have f2: "isMainSessionAlias_untyped (stringsOnly ?c) (stringsOnly ?c) (ofOptional (Some ''Heartbeat ''))
        (map_option ofSnapshot (Some denverDefaults)) = Inr True"
    unfolding th [THEN conjunct2, THEN conjunct2, THEN conjunct1] using A1 by simp
  have f3: "isMainSessionAlias_untyped (stringsOnly ?c) (stringsOnly ?c) (ofOptional (Some ''  ''))
        (map_option ofSnapshot (Some denverDefaults)) = Inr False"
    by (rule th [THEN conjunct2, THEN conjunct2, THEN conjunct2, THEN conjunct1, THEN mp])
      (rule e)
  have f4: "isMainSessionAlias_untyped (stringsOnly ?c) (stringsOnly ?c) (ofOptional None)
        (map_option ofSnapshot (Some denverDefaults)) = Inr False"
    by (rule th [THEN conjunct2, THEN conjunct2, THEN conjunct2, THEN conjunct1, THEN mp])
      (rule e)
  have f5: "resolveSnapshotMainSessionKey_untyped (stringsOnly ?c) (stringsOnly ?c) (map_option ofSnapshot None) = Inr None"
    unfolding th [THEN conjunct2, THEN conjunct1] by (simp add: resolve_None)
  have f6: "isMainSessionAlias_untyped (stringsOnly ?c) (stringsOnly ?c) (ofOptional (Some ''main''))
        (map_option ofSnapshot None) = Inr False"
    by (rule th [THEN conjunct2, THEN conjunct2, THEN conjunct2, THEN conjunct2, THEN mp])
      (rule f5)
  show ?thesis using c f0 f1 f2 f3 f4 f5 f6 e by simp
qed

text \<open>
  C9. The alias test does not see leading or trailing white space, nor letter case, of
  its first argument: testing \<open>value\<close> and testing \<open>value.trim().toLowerCase()\<close> give
  the same answer.
\<close>

theorem isMainSessionAlias_trim_lower_invariant:
  "isMainSessionAlias nai nmk (Some v) defaults
     = isMainSessionAlias nai nmk (Some (toLowerCase (trim v))) defaults"
proof (cases "resolveSnapshotMainSessionKey nai nmk defaults")
  case None
  then show ?thesis by (simp add: isMainSessionAlias_None)
next
  case (Some K)
  show ?thesis
    unfolding isMainSessionAlias_Some [OF Some]
    by (simp add: orEmpty_def trim_toLowerCase trim_idem toLowerCase_idem toLowerCase_Nil_iff)
qed

text \<open>
  C10. Under the hypothesis that both collaborators always return non-empty strings,
  a non-null result of the resolver is a non-empty string.
\<close>

theorem resolve_result_not_empty:
  "(\<And>raw. nai raw \<noteq> []) \<Longrightarrow> (\<And>raw. nmk raw \<noteq> []) \<Longrightarrow>
   resolveSnapshotMainSessionKey nai nmk defaults = Some K \<Longrightarrow> K \<noteq> []"
  by (rule resolve_not_empty)

theorem resolve_result_not_empty_witness:
  "(\<forall>raw. canonicalOrDefault ''main'' raw \<noteq> [])
   \<and> resolveSnapshotMainSessionKey (canonicalOrDefault ''main'') (canonicalOrDefault ''main'')
        (Some denverDefaults) = Some ''agent:denver-move:heartbeat''
   \<and> ''agent:denver-move:heartbeat'' \<noteq> []"
proof -
  have ne: "canonicalOrDefault ''main'' raw \<noteq> []" for raw
    by (rule canonicalOrDefault_not_empty) simp
  have r: "resolveSnapshotMainSessionKey (canonicalOrDefault ''main'') (canonicalOrDefault ''main'')
        (Some denverDefaults) = Some ''agent:denver-move:heartbeat''"
    by (simp add: resolve_cases resolver_eval string_eval)
  from resolve_result_not_empty [of "canonicalOrDefault ''main''" "canonicalOrDefault ''main''", OF ne ne r]
  show ?thesis using ne r by simp
qed










section \<open>Claims about the gateway connection\<close>

lemmas gateway_eval =
  connect_def fire_def initialGateway_def createHost_def onHello_def onClose_def onGap_def
  onEvent_def reasonOrDefault_def helloSessionDefaults_def numberToString_def digitsOf.simps
  digitChar_def Let_def

lemma connect_generation:
  "connect g = (c, g') \<Longrightarrow> c = currentGeneration g + 1 \<and> currentGeneration g' = c \<and> host g' = host g"
  by (auto simp add: connect_def Let_def)

text \<open>
  C1. After two \<open>connect\<close> calls in sequence, from any guard and host state, a callback
  fired on the first client (now superseded) changes nothing, so every field of the host
  is as before. Fired on the second client, \<open>onGap\<close> and \<open>onClose\<close> set \<open>lastError\<close> to
  their text, \<open>onEvent\<close> appends the event to \<open>eventLogBuffer\<close>, and \<open>onHello\<close> sets
  \<open>connected\<close> and, when the hello carries session defaults whose resolved key differs
  from the host's session key, sets the session key and the two mirrored settings
  fields to the resolved key; no other field of the host and nothing of the guard
  changes.
\<close>

theorem stale_callbacks_suppressed:
  assumes first: "connect g0 = (c1, g1)" and second: "connect g1 = (c2, g2)"
  shows "fire nai nmk c1 cb g2 = g2
     \<and> host (fire nai nmk c1 cb g2) = host g2
     \<and> fire nai nmk c2 (OnGap expected received) g2
        = g2\<lparr> host := (host g2)\<lparr> lastError :=
              Some (''event gap detected (expected seq '' @ numberToString expected @ '', got ''
                    @ numberToString received @ ''); refresh recommended'') \<rparr> \<rparr>
     \<and> fire nai nmk c2 (OnClose code reason) g2
        = g2\<lparr> host := (host g2)\<lparr> lastError :=
              Some (''disconnected ('' @ numberToString code @ ''): ''
                    @ (case reason of
                         None \<Rightarrow> ''no reason''
                       | Some r \<Rightarrow> if r = [] then ''no reason'' else r)) \<rparr> \<rparr>
     \<and> fire nai nmk c2 (OnEvent evt) g2
        = g2\<lparr> host := (host g2)\<lparr> eventLogBuffer := eventLogBuffer (host g2) @ [evt] \<rparr> \<rparr>
     \<and> fire nai nmk c2 (OnHello hello) g2
        = g2\<lparr> host :=
              (case (case snapshot hello of None \<Rightarrow> None | Some sn \<Rightarrow> sessionDefaults sn) of
                 None \<Rightarrow> (host g2)\<lparr> connected := True \<rparr>
               | Some defaults \<Rightarrow>
                   (case resolveSnapshotMainSessionKey nai nmk (Some defaults) of
                      None \<Rightarrow> (host g2)\<lparr> connected := True \<rparr>
                    | Some resolved \<Rightarrow>
                        if resolved = sessionKey (host g2) then (host g2)\<lparr> connected := True \<rparr>
                        else (host g2)\<lparr> connected := True, sessionKey := resolved,
                               settings := (settings (host g2))\<lparr>
                                 settings_sessionKey := resolved,
                                 settings_lastActiveSessionKey := resolved \<rparr> \<rparr>)) \<rparr>"
proof -
  from connect_generation [OF first] connect_generation [OF second]
  have stale: "c1 \<noteq> currentGeneration g2" and active: "c2 = currentGeneration g2" by auto
  have s: "fire nai nmk c1 cb g2 = g2" using stale by (simp add: fire_def)
  have a: "fire nai nmk c2 cb' g2 = g2\<lparr> host := handle nai nmk cb' (host g2) \<rparr>" for cb'
    using active by (simp add: fire_def)
  have gap: "handle nai nmk (OnGap expected received) (host g2)
        = (host g2)\<lparr> lastError :=
              Some (''event gap detected (expected seq '' @ numberToString expected @ '', got ''
                    @ numberToString received @ ''); refresh recommended'') \<rparr>"
    by (simp add: onGap_def)
  have close: "handle nai nmk (OnClose code reason) (host g2)
        = (host g2)\<lparr> lastError :=
              Some (''disconnected ('' @ numberToString code @ ''): ''
                    @ (case reason of
                         None \<Rightarrow> ''no reason''
                       | Some r \<Rightarrow> if r = [] then ''no reason'' else r)) \<rparr>"
    by (simp add: onClose_def reasonOrDefault_def)
  have ev: "handle nai nmk (OnEvent evt) (host g2)
        = (host g2)\<lparr> eventLogBuffer := eventLogBuffer (host g2) @ [evt] \<rparr>"
    by (simp add: onEvent_def)
  have hello: "handle nai nmk (OnHello hello) (host g2)
        = (case (case snapshot hello of None \<Rightarrow> None | Some sn \<Rightarrow> sessionDefaults sn) of
                 None \<Rightarrow> (host g2)\<lparr> connected := True \<rparr>
               | Some defaults \<Rightarrow>
                   (case resolveSnapshotMainSessionKey nai nmk (Some defaults) of
                      None \<Rightarrow> (host g2)\<lparr> connected := True \<rparr>
                    | Some resolved \<Rightarrow>
                        if resolved = sessionKey (host g2) then (host g2)\<lparr> connected := True \<rparr>
                        else (host g2)\<lparr> connected := True, sessionKey := resolved,
                               settings := (settings (host g2))\<lparr>
                                 settings_sessionKey := resolved,
                                 settings_lastActiveSessionKey := resolved \<rparr> \<rparr>))"
    by (simp add: onHello_def helloSessionDefaults_def Let_def split: option.splits)
  show ?thesis unfolding a gap close ev hello using s by simp
qed

theorem stale_callbacks_suppressed_witness:
  "connect (initialGateway busyHost) = (1, snd (connect (initialGateway busyHost)))
   \<and> connect (snd (connect (initialGateway busyHost))) = (2, snd (connect (snd (connect (initialGateway busyHost)))))
   \<and> host (fire (canonicalOrDefault ''main'') (canonicalOrDefault ''main'') 1 (OnGap 20 24)
        (snd (connect (snd (connect (initialGateway busyHost)))))) = busyHost
   \<and> host (fire (canonicalOrDefault ''main'') (canonicalOrDefault ''main'') 1 (OnClose 1005 (Some []))
        (snd (connect (snd (connect (initialGateway busyHost)))))) = busyHost
   \<and> host (fire (canonicalOrDefault ''main'') (canonicalOrDefault ''main'') 1 (OnEvent \<lparr> event = ''presence'', payload = Some ''active'', seq = Some 8 \<rparr>)
        (snd (connect (snd (connect (initialGateway busyHost)))))) = busyHost
   \<and> host (fire (canonicalOrDefault ''main'') (canonicalOrDefault ''main'') 1 (OnHello \<lparr> snapshot = Some \<lparr> sessionDefaults = Some denverDefaults \<rparr> \<rparr>)
        (snd (connect (snd (connect (initialGateway busyHost)))))) = busyHost
   \<and> host (fire (canonicalOrDefault ''main'') (canonicalOrDefault ''main'') 2 (OnGap 20 24)
        (snd (connect (snd (connect (initialGateway busyHost))))))
     = busyHost\<lparr> lastError := Some ''event gap detected (expected seq 20, got 24); refresh recommended'' \<rparr>
   \<and> host (fire (canonicalOrDefault ''main'') (canonicalOrDefault ''main'') 2 (OnClose 1005 (Some []))
        (snd (connect (snd (connect (initialGateway busyHost))))))
     = busyHost\<lparr> lastError := Some ''disconnected (1005): no reason'' \<rparr>
   \<and> host (fire (canonicalOrDefault ''main'') (canonicalOrDefault ''main'') 2 (OnEvent \<lparr> event = ''presence'', payload = Some ''active'', seq = Some 8 \<rparr>)
        (snd (connect (snd (connect (initialGateway busyHost))))))
     = busyHost\<lparr> eventLogBuffer :=
          [\<lparr> event = ''presence'', payload = Some ''earlier'', seq = Some 7 \<rparr>,
           \<lparr> event = ''presence'', payload = Some ''active'', seq = Some 8 \<rparr>] \<rparr>
   \<and> host (fire (canonicalOrDefault ''main'') (canonicalOrDefault ''main'') 2 (OnHello \<lparr> snapshot = Some \<lparr> sessionDefaults = Some denverDefaults \<rparr> \<rparr>)
        (snd (connect (snd (connect (initialGateway busyHost))))))
     = \<lparr> connected = True, lastError = None, sessionKey = ''agent:denver-move:heartbeat'',
          eventLogBuffer = [\<lparr> event = ''presence'', payload = Some ''earlier'', seq = Some 7 \<rparr>],
          settings = \<lparr> settings_sessionKey = ''agent:denver-move:heartbeat'',
                       settings_lastActiveSessionKey = ''agent:denver-move:heartbeat'' \<rparr> \<rparr>"
proof -
  let ?g0 = "initialGateway busyHost"
  let ?g1 = "snd (connect ?g0)"
  let ?g2 = "snd (connect ?g1)"
  have a: "connect ?g0 = (1, ?g1)" by (simp add: connect_def initialGateway_def Let_def)
  have b: "connect ?g1 = (2, ?g2)" by (simp add: connect_def initialGateway_def Let_def)
  have h: "host ?g2 = busyHost" by (simp add: connect_def initialGateway_def Let_def)
  have n: "numberToString 20 = ''20''" "numberToString 24 = ''24''" "numberToString 1005 = ''1005''"
    by (simp_all add: numberToString_def digitsOf.simps digitChar_def char_of_def bit_0)
  have K: "resolveSnapshotMainSessionKey (canonicalOrDefault ''main'') (canonicalOrDefault ''main'')
       (Some denverDefaults) = Some ''agent:denver-move:heartbeat''"
    by (simp add: resolve_cases resolver_eval string_eval)
  note th = stale_callbacks_suppressed [OF a b, of "canonicalOrDefault ''main''" "canonicalOrDefault ''main''"]
  note th_stale = th [THEN conjunct2, THEN conjunct1]
  note th_gap = th [THEN conjunct2, THEN conjunct2, THEN conjunct1]
  note th_close = th [THEN conjunct2, THEN conjunct2, THEN conjunct2, THEN conjunct1]
  note th_event = th [THEN conjunct2, THEN conjunct2, THEN conjunct2, THEN conjunct2, THEN conjunct1]
  note th_hello = th [THEN conjunct2, THEN conjunct2, THEN conjunct2, THEN conjunct2, THEN conjunct2]
  have stale: "host (fire (canonicalOrDefault ''main'') (canonicalOrDefault ''main'') 1 cb ?g2) = busyHost"
    for cb
    using th_stale [of cb] h by simp
  have gap: "host (fire (canonicalOrDefault ''main'') (canonicalOrDefault ''main'') 2 (OnGap 20 24) ?g2)
     = busyHost\<lparr> lastError := Some ''event gap detected (expected seq 20, got 24); refresh recommended'' \<rparr>"
    unfolding th_gap h by (simp add: n)
  have close: "host (fire (canonicalOrDefault ''main'') (canonicalOrDefault ''main'') 2
        (OnClose 1005 (Some [])) ?g2)
     = busyHost\<lparr> lastError := Some ''disconnected (1005): no reason'' \<rparr>"
    unfolding th_close h by (simp add: n)
  have ev: "host (fire (canonicalOrDefault ''main'') (canonicalOrDefault ''main'') 2
        (OnEvent \<lparr> event = ''presence'', payload = Some ''active'', seq = Some 8 \<rparr>) ?g2)
     = busyHost\<lparr> eventLogBuffer :=
          [\<lparr> event = ''presence'', payload = Some ''earlier'', seq = Some 7 \<rparr>,
           \<lparr> event = ''presence'', payload = Some ''active'', seq = Some 8 \<rparr>] \<rparr>"
    unfolding th_event h by (simp add: busyHost_def createHost_def)
  have hello: "host (fire (canonicalOrDefault ''main'') (canonicalOrDefault ''main'') 2
        (OnHello \<lparr> snapshot = Some \<lparr> sessionDefaults = Some denverDefaults \<rparr> \<rparr>) ?g2)
     = \<lparr> connected = True, lastError = None, sessionKey = ''agent:denver-move:heartbeat'',
          eventLogBuffer = [\<lparr> event = ''presence'', payload = Some ''earlier'', seq = Some 7 \<rparr>],
          settings = \<lparr> settings_sessionKey = ''agent:denver-move:heartbeat'',
                       settings_lastActiveSessionKey = ''agent:denver-move:heartbeat'' \<rparr> \<rparr>"
    unfolding th_hello h by (simp add: K busyHost_def createHost_def)
  show ?thesis using a b stale gap close ev hello by simp
qed

text \<open>
  C5. The two user-visible texts. A gap notification delivered to the active generation
  sets \<open>lastError\<close> to \<open>event gap detected (expected seq E, got R); refresh recommended\<close>;
  a close notification sets it to \<open>disconnected (C): REASON\<close>, where the reason is
  \<open>no reason\<close> when it is empty or absent.
\<close>

theorem lastError_texts:
  assumes "myGeneration = currentGeneration g"
  shows "lastError (host (fire nai nmk myGeneration (OnGap expected received) g))
       = Some (''event gap detected (expected seq '' @ numberToString expected @ '', got ''
               @ numberToString received @ ''); refresh recommended'')
     \<and> lastError (host (fire nai nmk myGeneration (OnClose code reason) g))
       = Some (''disconnected ('' @ numberToString code @ ''): ''
               @ (case reason of
                    None \<Rightarrow> ''no reason''
                  | Some r \<Rightarrow> if r = [] then ''no reason'' else r))"
  using assms by (simp add: fire_def onGap_def onClose_def reasonOrDefault_def)

theorem lastError_texts_witness:
  "(2::nat) = currentGeneration (snd (connect (snd (connect (initialGateway createHost)))))
   \<and> lastError (host (fire (canonicalOrDefault ''main'') (canonicalOrDefault ''main'') 2 (OnGap 20 24)
        (snd (connect (snd (connect (initialGateway createHost)))))))
     = Some ''event gap detected (expected seq 20, got 24); refresh recommended''
   \<and> lastError (host (fire (canonicalOrDefault ''main'') (canonicalOrDefault ''main'') 2 (OnClose 1005 None)
        (snd (connect (snd (connect (initialGateway createHost)))))))
     = Some ''disconnected (1005): no reason''"
proof -
  let ?g2 = "snd (connect (snd (connect (initialGateway createHost))))"
  have c: "(2::nat) = currentGeneration ?g2" by (simp add: gateway_eval)
  have n: "numberToString 20 = ''20''" "numberToString 24 = ''24''" "numberToString 1005 = ''1005''"
    by (simp_all add: numberToString_def digitsOf.simps digitChar_def char_of_def bit_0)
  from lastError_texts [OF c, of "canonicalOrDefault ''main''" "canonicalOrDefault ''main''" 20 24 1005 None]
  show ?thesis using c by (simp add: n)
qed

text \<open>
  C6. A hello delivered to the active generation sets \<open>connected\<close>; when its snapshot
  carries session defaults whose resolved canonical key differs from the host's session
  key, the host's session key and the two mirrored settings fields become the resolved
  key.
\<close>

theorem hello_sets_connected_and_session_key:
  assumes "myGeneration = currentGeneration g"
  shows "connected (host (fire nai nmk myGeneration (OnHello hello) g))
     \<and> (helloSessionDefaults hello = Some defaults
        \<and> resolveSnapshotMainSessionKey nai nmk (Some defaults) = Some resolved
        \<and> resolved \<noteq> sessionKey (host g)
        \<longrightarrow> sessionKey (host (fire nai nmk myGeneration (OnHello hello) g)) = resolved
          \<and> settings_sessionKey (settings (host (fire nai nmk myGeneration (OnHello hello) g)))
              = resolved
          \<and> settings_lastActiveSessionKey
               (settings (host (fire nai nmk myGeneration (OnHello hello) g))) = resolved)"
  using assms by (auto simp add: fire_def onHello_def Let_def split: option.splits)

theorem hello_sets_connected_and_session_key_witness:
  "(1::nat) = currentGeneration (snd (connect (initialGateway
       (createHost\<lparr> sessionKey := ''agent:denver-move:main'' \<rparr>))))
   \<and> helloSessionDefaults \<lparr> snapshot = Some \<lparr> sessionDefaults = Some denverDefaults \<rparr> \<rparr>
       = Some denverDefaults
   \<and> resolveSnapshotMainSessionKey (canonicalOrDefault ''main'') (canonicalOrDefault ''main'')
       (Some denverDefaults) = Some ''agent:denver-move:heartbeat''
   \<and> ''agent:denver-move:heartbeat'' \<noteq> sessionKey (host (snd (connect (initialGateway
       (createHost\<lparr> sessionKey := ''agent:denver-move:main'' \<rparr>)))))
   \<and> host (fire (canonicalOrDefault ''main'') (canonicalOrDefault ''main'') 1
        (OnHello \<lparr> snapshot = Some \<lparr> sessionDefaults = Some denverDefaults \<rparr> \<rparr>)
        (snd (connect (initialGateway (createHost\<lparr> sessionKey := ''agent:denver-move:main'' \<rparr>)))))
     = \<lparr> connected = True, lastError = None, sessionKey = ''agent:denver-move:heartbeat'',
         eventLogBuffer = [],
         settings = \<lparr> settings_sessionKey = ''agent:denver-move:heartbeat'',
                      settings_lastActiveSessionKey = ''agent:denver-move:heartbeat'' \<rparr> \<rparr>"
proof -
  let ?g1 = "snd (connect (initialGateway (createHost\<lparr> sessionKey := ''agent:denver-move:main'' \<rparr>)))"
  let ?hello = "\<lparr> snapshot = Some \<lparr> sessionDefaults = Some denverDefaults \<rparr> \<rparr>"
  have c: "(1::nat) = currentGeneration ?g1" by (simp add: gateway_eval)
  have d: "helloSessionDefaults ?hello = Some denverDefaults"
    by (simp add: helloSessionDefaults_def)
  have K: "resolveSnapshotMainSessionKey (canonicalOrDefault ''main'') (canonicalOrDefault ''main'')
       (Some denverDefaults) = Some ''agent:denver-move:heartbeat''"
    by (simp add: resolve_cases resolver_eval string_eval)
  have h: "host ?g1 = createHost\<lparr> sessionKey := ''agent:denver-move:main'' \<rparr>"
    by (simp add: gateway_eval)
  from hello_sets_connected_and_session_key [OF c, of "canonicalOrDefault ''main''" "canonicalOrDefault ''main''"
      ?hello denverDefaults "''agent:denver-move:heartbeat''"]
  show ?thesis using c d K h
    by (simp add: fire_def onHello_def Let_def createHost_def)
qed

end
